theory Spec2Isabelle
  imports Complex_Main
begin

section \<open>Numbers\<close>

text \<open>
  JavaScript numbers are modelled as the real numbers: the arithmetic of the source is
  taken exactly, the rounding of IEEE doubles (and of the 32-bit buffers) is left out.
  \<open>Math.hypot(a, b)\<close> is the square root of the sum of the squares.
\<close>

definition hypot :: "real \<Rightarrow> real \<Rightarrow> real" where
  "hypot a b = sqrt (a * a + b * b)"

section \<open>GestureHandler.js\<close>

text \<open>
  A landmark is an object with the properties \<open>x\<close>, \<open>y\<close>, \<open>z\<close>; a hand is an array of
  landmarks; \<open>result.landmarks\<close> is an array of hands.
\<close>

record landmark =
  lm_x :: real
  lm_y :: real
  lm_z :: real

text \<open>
  The only failure of the classifier is the one the language raises: reading an array
  beyond its length gives \<open>undefined\<close>, and reading a property of \<open>undefined\<close> throws a
  TypeError. The source has no check and no exception of its own: \<open>InvalidLandmarkSet\<close>
  is the condition the specification names for a hand with too few landmarks, and no
  definition below raises it.
\<close>

datatype error = TypeError | InvalidLandmarkSet

text \<open>\<open>prop_of lms i\<close> is \<open>lms[i]\<close> at the moment one of its properties is read.\<close>

definition prop_of :: "landmark list \<Rightarrow> nat \<Rightarrow> error + landmark" where
  "prop_of lms i = (if i < length lms then Inr (lms ! i) else Inl TypeError)"

text \<open>A thrown error ends the evaluation; otherwise the value goes to what follows.\<close>

definition seq :: "error + 'a \<Rightarrow> ('a \<Rightarrow> error + 'b) \<Rightarrow> error + 'b" where
  "seq m f = (case m of Inl e \<Rightarrow> Inl e | Inr v \<Rightarrow> f v)"

datatype gesture_type = IDLE | EXPAND | CONTRACT

record gesture_state =
  gtype :: gesture_type
  strength :: real
  rotationY :: "real option"

definition tips :: "nat list" where
  "tips = [8, 12, 16, 20]"

definition pips :: "nat list" where
  "pips = [6, 10, 14, 18]"

text \<open>
  The loop of \<open>isFist\<close> over \<open>i = 0, 1, 2, 3\<close>, with the counter \<open>foldedFingers\<close>
  passed along. Each round reads the tip, the wrist and the PIP joint.
\<close>

fun isFist_loop :: "landmark list \<Rightarrow> nat list \<Rightarrow> nat \<Rightarrow> error + nat" where
  "isFist_loop landmarks [] foldedFingers = Inr foldedFingers"
| "isFist_loop landmarks (i # rest) foldedFingers =
     seq (prop_of landmarks (tips ! i)) (\<lambda>tip.
     seq (prop_of landmarks 0) (\<lambda>wrist.
     seq (prop_of landmarks (pips ! i)) (\<lambda>pip.
       let dTip = hypot (lm_x tip - lm_x wrist) (lm_y tip - lm_y wrist);
           dPip = hypot (lm_x pip - lm_x wrist) (lm_y pip - lm_y wrist)
       in isFist_loop landmarks rest
            (if dTip < dPip then foldedFingers + 1 else foldedFingers))))"

definition isFist :: "landmark list \<Rightarrow> error + bool" where
  "isFist landmarks =
     seq (isFist_loop landmarks [0, 1, 2, 3] 0) (\<lambda>foldedFingers.
       Inr (3 \<le> foldedFingers))"

text \<open>
  \<open>processResult\<close> returns what it hands to \<open>onGestureUpdate\<close>; when a TypeError is
  thrown the callback is never reached.
\<close>

definition processResult :: "landmark list list \<Rightarrow> error + gesture_state" where
  "processResult landmarks =
     (if 0 < length landmarks then
        let hand1 = landmarks ! 0 in
        seq (prop_of hand1 0) (\<lambda>wrist.
        let rot = Some ((lm_x wrist - 0.5) * pi * 2) in
        seq (isFist hand1) (\<lambda>fist0.
        seq (if 1 < length landmarks then isFist (landmarks ! 1) else Inr False) (\<lambda>fist1.
        if fist0 \<or> fist1 then
          Inr \<lparr>gtype = CONTRACT, strength = 1.0, rotationY = rot\<rparr>
        else if length landmarks = 2 then
          seq (prop_of (landmarks ! 0) 0) (\<lambda>h1.
          seq (prop_of (landmarks ! 1) 0) (\<lambda>h2.
            let dist = hypot (lm_x h1 - lm_x h2) (lm_y h1 - lm_y h2) in
            if 0.5 < dist then
              Inr \<lparr>gtype = EXPAND, strength = (dist - 0.5) * 2, rotationY = rot\<rparr>
            else Inr \<lparr>gtype = IDLE, strength = 0, rotationY = rot\<rparr>))
        else
          seq (prop_of hand1 4) (\<lambda>thumbTip.
          seq (prop_of hand1 8) (\<lambda>indexTip.
            let dist = hypot (lm_x thumbTip - lm_x indexTip) (lm_y thumbTip - lm_y indexTip) in
            if 0.25 < dist then
              Inr \<lparr>gtype = EXPAND, strength = (dist - 0.25) * 3, rotationY = rot\<rparr>
            else Inr \<lparr>gtype = IDLE, strength = 0, rotationY = rot\<rparr>)))))
      else Inr \<lparr>gtype = IDLE, strength = 0, rotationY = None\<rparr>)"

section \<open>HeartSystem.js\<close>

text \<open>
  \<open>Math.random()\<close> is a parameter: \<open>rnd k\<close> is the value of the \<open>k\<close>-th call made
  during one operation (counting from 0), a number in \<open>[0, 1)\<close>.
\<close>

definition unit_draw :: "real \<Rightarrow> bool" where
  "unit_draw u \<longleftrightarrow> 0 \<le> u \<and> u < 1"

text \<open>\<open>THREE.Vector3\<close> and \<open>THREE.Color\<close>, as far as the class uses them.\<close>

record vec3 =
  v_x :: real
  v_y :: real
  v_z :: real

record color =
  col_r :: real
  col_g :: real
  col_b :: real

text \<open>\<open>THREE.MathUtils.lerp\<close> of the three.js library: \<open>(1 - t) * x + t * y\<close>.\<close>

definition lerp :: "real \<Rightarrow> real \<Rightarrow> real \<Rightarrow> real" where
  "lerp a b t = (1 - t) * a + t * b"

record heart_params =
  color1 :: color
  color2 :: color
  springStrength :: real
  damping :: real
  noiseStrength :: real

text \<open>
  The fields of a \<open>HeartSystem\<close> that the simulation reads or writes. The four buffers
  are typed arrays of length \<open>maxCount * 3\<close>; \<open>geometry.attributes.position.array\<close> and
  \<open>geometry.attributes.color.array\<close> are \<open>posArray\<close> and \<open>colorArray\<close> themselves.
  \<open>drawCount\<close> is the count of \<open>geometry.drawRange\<close>, \<open>rotation_y\<close> is
  \<open>container.rotation.y\<close>.
\<close>

record heart_system =
  maxCount :: int
  currentCount :: int
  posArray :: "real list"
  targetArray :: "real list"
  velArray :: "real list"
  colorArray :: "real list"
  time :: real
  pulseSpeed :: real
  params :: heart_params
  drawCount :: int
  rotation_y :: real

text \<open>
  \<open>getHeartPoint(t, scale)\<close>; \<open>u\<close> is the value of its one call to \<open>Math.random()\<close>.
\<close>

definition getHeartPoint :: "real \<Rightarrow> real \<Rightarrow> real \<Rightarrow> vec3" where
  "getHeartPoint t scale u =
     (let x = 16 * (sin t) ^ 3;
          y = 13 * cos t - 5 * cos (2 * t) - 2 * cos (3 * t) - cos (4 * t);
          z = (u - 0.5) * 10 * scale
      in \<lparr>v_x = x * scale, v_y = y * scale, v_z = z\<rparr>)"

text \<open>
  \<open>resetParticle(i)\<close> makes three calls to \<open>Math.random()\<close>: for \<open>t\<close>, for \<open>r\<close> and, inside
  \<open>getHeartPoint\<close>, for \<open>z\<close>. A typed array drops a write beyond its length, as
  \<open>xs[i := v]\<close> does.
\<close>

definition resetParticle :: "(nat \<Rightarrow> real) \<Rightarrow> nat \<Rightarrow> heart_system \<Rightarrow> heart_system" where
  "resetParticle rnd i s =
     (let t = rnd (3 * i) * pi * 2;
          r = sqrt (rnd (3 * i + 1));
          p0 = getHeartPoint t r (rnd (3 * i + 2));
          p = p0\<lparr>v_y := v_y p0 + 2\<rparr>
      in s\<lparr>posArray :=
             (posArray s)[i * 3 := v_x p, i * 3 + 1 := v_y p, i * 3 + 2 := v_z p],
           targetArray :=
             (targetArray s)[i * 3 := v_x p, i * 3 + 1 := v_y p, i * 3 + 2 := v_z p],
           velArray :=
             (velArray s)[i * 3 := 0, i * 3 + 1 := 0, i * 3 + 2 := 0]\<rparr>)"

text \<open>The loop \<open>for (let i = 0; i < this.maxCount; i++)\<close> has a bound it never changes.\<close>

definition initParticles :: "(nat \<Rightarrow> real) \<Rightarrow> heart_system \<Rightarrow> heart_system" where
  "initParticles rnd s = fold (resetParticle rnd) [0..<nat (maxCount s)] s"

definition setParticleCount :: "int \<Rightarrow> heart_system \<Rightarrow> heart_system" where
  "setParticleCount count s =
     (let s1 = s\<lparr>currentCount := min count (maxCount s)\<rparr>
      in s1\<lparr>drawCount := currentCount s1\<rparr>)"

text \<open>The heartbeat factor \<open>beat\<close> of \<open>update\<close>, as a function of \<open>this.time\<close>.\<close>

definition beat :: "real \<Rightarrow> real" where
  "beat tm = 1 + sin (tm * 3) * 0.05 * (1 + sin (tm * 3 + pi) * 0.5)"

text \<open>The denominator \<open>len\<close> of the explosion branch.\<close>

definition expand_len :: "real \<Rightarrow> real \<Rightarrow> real \<Rightarrow> real" where
  "expand_len px py pz = sqrt (px * px + py * py + pz * pz) + 0.001"

text \<open>
  One round of the loop of \<open>update\<close>, for the particle \<open>i\<close>, in the blocks the source
  marks with its comments. A read beyond the length of a typed array gives \<open>undefined\<close>
  and every write of the round then goes beyond the length too and is dropped, so such
  a round leaves the buffers as they are; in the model the read is \<open>xs ! i\<close> and the
  write \<open>xs[i := v]\<close> is dropped in the same way.
\<close>

text \<open>
  Physics forces: the spring towards the scaled home, the force of the gesture, the noise.
  The result is \<open>(fx, fy, fz)\<close>. \<open>gestureState.strength || 0\<close> is 0 for the number 0 and
  the number itself otherwise.
\<close>

definition particle_force ::
  "real \<Rightarrow> gesture_state \<Rightarrow> real \<Rightarrow> (nat \<Rightarrow> real) \<Rightarrow> nat \<Rightarrow> heart_system \<Rightarrow> real \<times> real \<times> real" where
  "particle_force dt gestureState pulseScale rnd i s =
     (let isExp = (gtype gestureState = EXPAND);
          isCon = (gtype gestureState = CONTRACT);
          handStrength = (if strength gestureState = 0 then 0 else strength gestureState);
          idx = i * 3;
          px = posArray s ! idx;
          py = posArray s ! (idx + 1);
          pz = posArray s ! (idx + 2);
          tx = targetArray s ! idx * pulseScale;
          ty = targetArray s ! (idx + 1) * pulseScale;
          tz = targetArray s ! (idx + 2) * pulseScale;
          fx0 = 0 + (tx - px) * springStrength (params s);
          fy0 = 0 + (ty - py) * springStrength (params s);
          fz0 = 0 + (tz - pz) * springStrength (params s);
          len = expand_len px py pz;
          push = 50 * handStrength;
          fx1 = (if isExp then fx0 + (px / len) * push * dt
                 else if isCon then fx0 - px * 5 * handStrength * dt else fx0);
          fy1 = (if isExp then fy0 + (py / len) * push * dt
                 else if isCon then fy0 - py * 5 * handStrength * dt else fy0);
          fz1 = (if isExp then fz0 + (pz / len) * push * dt
                 else if isCon then fz0 - pz * 5 * handStrength * dt else fz0)
      in (fx1 + (rnd (3 * i) - 0.5) * noiseStrength (params s),
          fy1 + (rnd (3 * i + 1) - 0.5) * noiseStrength (params s),
          fz1 + (rnd (3 * i + 2) - 0.5) * noiseStrength (params s)))"

text \<open>Integration (Euler): \<open>velArray[idx] += fx\<close> and its two neighbours.\<close>

definition add_force :: "real \<times> real \<times> real \<Rightarrow> nat \<Rightarrow> real list \<Rightarrow> real list" where
  "add_force f i vel =
     (case f of (fx, fy, fz) \<Rightarrow>
        vel[i * 3 := vel ! (i * 3) + fx,
            i * 3 + 1 := vel ! (i * 3 + 1) + fy,
            i * 3 + 2 := vel ! (i * 3 + 2) + fz])"

text \<open>Damping: \<open>velArray[idx] *= damping\<close> and its two neighbours.\<close>

definition damp :: "real \<Rightarrow> nat \<Rightarrow> real list \<Rightarrow> real list" where
  "damp d i vel =
     vel[i * 3 := vel ! (i * 3) * d,
         i * 3 + 1 := vel ! (i * 3 + 1) * d,
         i * 3 + 2 := vel ! (i * 3 + 2) * d]"

text \<open>Update position: \<open>positions[idx] += velArray[idx]\<close> and its two neighbours.\<close>

definition move :: "nat \<Rightarrow> real list \<Rightarrow> real list \<Rightarrow> real list" where
  "move i vel pos =
     pos[i * 3 := pos ! (i * 3) + vel ! (i * 3),
         i * 3 + 1 := pos ! (i * 3 + 1) + vel ! (i * 3 + 1),
         i * 3 + 2 := pos ! (i * 3 + 2) + vel ! (i * 3 + 2)]"

text \<open>Colour dynamics: the three channels interpolated by the speed.\<close>

definition recolor :: "heart_params \<Rightarrow> nat \<Rightarrow> real list \<Rightarrow> real list \<Rightarrow> real list" where
  "recolor prm i vel colors =
     (let vSq = (vel ! (i * 3)) ^ 2 + (vel ! (i * 3 + 1)) ^ 2 + (vel ! (i * 3 + 2)) ^ 2;
          speed = sqrt vSq;
          tColor = min (speed * 0.5) 1.0
      in colors[i * 3 := lerp (col_r (color1 prm)) (col_r (color2 prm)) tColor,
                i * 3 + 1 := lerp (col_g (color1 prm)) (col_g (color2 prm)) tColor,
                i * 3 + 2 := lerp (col_b (color1 prm)) (col_b (color2 prm)) tColor])"

definition update_particle ::
  "real \<Rightarrow> gesture_state \<Rightarrow> real \<Rightarrow> (nat \<Rightarrow> real) \<Rightarrow> nat \<Rightarrow> heart_system \<Rightarrow> heart_system" where
  "update_particle dt gestureState pulseScale rnd i s =
     (let f = particle_force dt gestureState pulseScale rnd i s;
          vel = damp (damping (params s)) i (add_force f i (velArray s))
      in s\<lparr>posArray := move i vel (posArray s),
           velArray := vel,
           colorArray := recolor (params s) i vel (colorArray s)\<rparr>)"

text \<open>
  \<open>update(dt, gestureState)\<close>. The loop \<open>for (let i = 0; i < this.currentCount; i++)\<close>
  runs over \<open>0, ..., currentCount - 1\<close> and not at all when \<open>currentCount\<close> is not
  positive; its body does not write \<open>currentCount\<close>.
\<close>

definition update :: "real \<Rightarrow> gesture_state \<Rightarrow> (nat \<Rightarrow> real) \<Rightarrow> heart_system \<Rightarrow> heart_system" where
  "update dt gestureState rnd s =
     (let s1 = s\<lparr>time := time s + dt * pulseSpeed s\<rparr>;
          pulseScale = beat (time s1);
          s2 = fold (update_particle dt gestureState pulseScale rnd)
                 [0..<nat (currentCount s1)] s1
      in case rotationY gestureState of
           Some target \<Rightarrow> s2\<lparr>rotation_y := rotation_y s2 + (target - rotation_y s2) * 0.1\<rparr>
         | None \<Rightarrow> s2\<lparr>rotation_y := rotation_y s2 + dt * 0.1\<rparr>)"

section \<open>The properties in the words of the specification\<close>

text \<open>
  The Euclidean distance of two landmarks in the plane of the image (\<open>z\<close> is not used).
\<close>

definition planar_dist :: "landmark \<Rightarrow> landmark \<Rightarrow> real" where
  "planar_dist p q = sqrt ((lm_x p - lm_x q)\<^sup>2 + (lm_y p - lm_y q)\<^sup>2)"

text \<open>
  A finger with the tip at landmark \<open>tip\<close> and the PIP joint at landmark \<open>pip\<close> is
  folded when the tip is strictly nearer to the wrist (landmark 0) than the joint. The
  four fingers are index (tip 8, joint 6), middle (12, 10), ring (16, 14) and little
  finger (20, 18); a hand has the shape of a fist when at least three of them are folded.
\<close>

definition finger_folded :: "landmark list \<Rightarrow> nat \<Rightarrow> nat \<Rightarrow> bool" where
  "finger_folded lms tip pip \<longleftrightarrow>
     planar_dist (lms ! tip) (lms ! 0) < planar_dist (lms ! pip) (lms ! 0)"

definition fist_shape :: "landmark list \<Rightarrow> bool" where
  "fist_shape lms \<longleftrightarrow>
     3 \<le> length (filter (\<lambda>(tip, pip). finger_folded lms tip pip)
                    [(8, 6), (12, 10), (16, 14), (20, 18)])"

text \<open>Hand 0 is a fist, or a present hand 1 is.\<close>

definition fist_seen :: "landmark list list \<Rightarrow> bool" where
  "fist_seen hs \<longleftrightarrow>
     (0 < length hs \<and> fist_shape (hs ! 0)) \<or> (1 < length hs \<and> fist_shape (hs ! 1))"

text \<open>The hands the classifier reads (the first two) have all 21 landmarks.\<close>

definition full_hands :: "landmark list list \<Rightarrow> bool" where
  "full_hands hs \<longleftrightarrow> list_all (\<lambda>h. 21 \<le> length h) (take 2 hs)"

definition rotation_of :: "landmark list list \<Rightarrow> real" where
  "rotation_of hs = (lm_x (hs ! 0 ! 0) - 0.5) * (2 * pi)"

text \<open>The planar distance of the two wrists, and of thumb tip and index tip of hand 0.\<close>

definition wrist_dist :: "landmark list list \<Rightarrow> real" where
  "wrist_dist hs = planar_dist (hs ! 0 ! 0) (hs ! 1 ! 0)"

definition pinch_dist :: "landmark list list \<Rightarrow> real" where
  "pinch_dist hs = planar_dist (hs ! 0 ! 4) (hs ! 0 ! 8)"

text \<open>
  The step of one particle in the words of the specification. \<open>m\<close> is an index of the
  buffers, \<open>i\<close> the particle it belongs to: the pulse factor at the time \<open>tm\<close>,
  the spring force towards the scaled home, the force of the gesture (for \<open>EXPAND\<close> along
  the position divided by its length plus 0.001), the noise, the velocity after the forces and the damping, the
  speed, and the colour channel \<open>k\<close> interpolated between the two colours.
\<close>

definition pulse_scale :: "real \<Rightarrow> real" where
  "pulse_scale tm = 1 + sin (3 * tm) * 0.05 * (1 + sin (3 * tm + pi) * 0.5)"

definition f_spring :: "heart_system \<Rightarrow> real \<Rightarrow> nat \<Rightarrow> real" where
  "f_spring s pulseScale m =
     (targetArray s ! m * pulseScale - posArray s ! m) * springStrength (params s)"

definition f_gesture :: "real \<Rightarrow> gesture_state \<Rightarrow> heart_system \<Rightarrow> nat \<Rightarrow> nat \<Rightarrow> real" where
  "f_gesture dt g s i m =
     (case gtype g of
        EXPAND \<Rightarrow>
          posArray s ! m
            / (sqrt ((posArray s ! (i * 3))\<^sup>2 + (posArray s ! (i * 3 + 1))\<^sup>2
                     + (posArray s ! (i * 3 + 2))\<^sup>2) + 0.001)
            * (50 * strength g) * dt
      | CONTRACT \<Rightarrow> - (posArray s ! m * 5 * strength g * dt)
      | IDLE \<Rightarrow> 0)"

definition f_noise :: "(nat \<Rightarrow> real) \<Rightarrow> heart_system \<Rightarrow> nat \<Rightarrow> real" where
  "f_noise rnd s m = (rnd m - 0.5) * noiseStrength (params s)"

definition step_velocity ::
  "real \<Rightarrow> gesture_state \<Rightarrow> real \<Rightarrow> (nat \<Rightarrow> real) \<Rightarrow> heart_system \<Rightarrow> nat \<Rightarrow> nat \<Rightarrow> real" where
  "step_velocity dt g pulseScale rnd s i m =
     (velArray s ! m + (f_spring s pulseScale m + f_gesture dt g s i m + f_noise rnd s m))
       * damping (params s)"

definition step_speed ::
  "real \<Rightarrow> gesture_state \<Rightarrow> real \<Rightarrow> (nat \<Rightarrow> real) \<Rightarrow> heart_system \<Rightarrow> nat \<Rightarrow> real" where
  "step_speed dt g pulseScale rnd s i =
     sqrt ((step_velocity dt g pulseScale rnd s i (i * 3)) ^ 2
         + (step_velocity dt g pulseScale rnd s i (i * 3 + 1)) ^ 2
         + (step_velocity dt g pulseScale rnd s i (i * 3 + 2)) ^ 2)"

definition channel :: "nat \<Rightarrow> color \<Rightarrow> real" where
  "channel k c = (if k = 0 then col_r c else if k = 1 then col_g c else col_b c)"

definition step_color ::
  "real \<Rightarrow> gesture_state \<Rightarrow> real \<Rightarrow> (nat \<Rightarrow> real) \<Rightarrow> heart_system \<Rightarrow> nat \<Rightarrow> nat \<Rightarrow> real" where
  "step_color dt g pulseScale rnd s i k =
     (let t = min (step_speed dt g pulseScale rnd s i * 0.5) 1
      in (1 - t) * channel k (color1 (params s)) + t * channel k (color2 (params s)))"

text \<open>
  The four buffers have the length the constructor allocates,
  \<open>new Float32Array(this.maxCount * 3)\<close>.
\<close>

definition buffers_ok :: "heart_system \<Rightarrow> bool" where
  "buffers_ok s \<longleftrightarrow>
     length (posArray s) = nat (maxCount s * 3) \<and>
     length (targetArray s) = nat (maxCount s * 3) \<and>
     length (velArray s) = nat (maxCount s * 3) \<and>
     length (colorArray s) = nat (maxCount s * 3)"

text \<open>The heart curve of the specification.\<close>

definition heart_x :: "real \<Rightarrow> real" where
  "heart_x t = 16 * sin t ^ 3"

definition heart_y :: "real \<Rightarrow> real" where
  "heart_y t = 13 * cos t - 5 * cos (2 * t) - 2 * cos (3 * t) - cos (4 * t)"

text \<open>The clamp of the specification.\<close>

definition clamp :: "int \<Rightarrow> int \<Rightarrow> int \<Rightarrow> int" where
  "clamp lo hi n = max lo (min n hi)"

text \<open>The home point of particle \<open>i\<close> as the specification gives it, from the three draws.\<close>

definition home_point :: "(nat \<Rightarrow> real) \<Rightarrow> nat \<Rightarrow> nat \<Rightarrow> real" where
  "home_point rnd i k =
     (let t = rnd (3 * i) * (2 * pi);
          r = sqrt (rnd (3 * i + 1))
      in if k = 0 then heart_x t * r
         else if k = 1 then heart_y t * r + 2
         else (rnd (3 * i + 2) - 0.5) * 10 * r)"

text \<open>A small system of two particles, the first one active, for the examples.\<close>

definition two_particles :: heart_system where
  "two_particles =
     \<lparr>maxCount = 2, currentCount = 1,
      posArray = [1, 0, 0, 4, 5, 6],
      targetArray = [0, 0, 0, 7, 8, 9],
      velArray = [0, 0, 0, 1, 1, 1],
      colorArray = [0, 0, 0, 0.5, 0.5, 0.5],
      time = 0, pulseSpeed = 1,
      params = \<lparr>color1 = \<lparr>col_r = 1, col_g = 0, col_b = 0\<rparr>,
                color2 = \<lparr>col_r = 1, col_g = 0, col_b = 1\<rparr>,
                springStrength = 0.5, damping = 0.5, noiseStrength = 0.2\<rparr>,
      drawCount = 1, rotation_y = 0\<rparr>"

text \<open>
  A system of one particle away from its home and from the origin, at a time that brings
  the pulse to its maximum after a step of 1, with two colours that differ in the blue
  channel.
\<close>

definition one_particle :: heart_system where
  "one_particle =
     \<lparr>maxCount = 1, currentCount = 1,
      posArray = [3, 4, 0],
      targetArray = [240 / 41, 320 / 41, 0],
      velArray = [0, 0, 0],
      colorArray = [0.5, 0.5, 0.5],
      time = pi / 6 - 1, pulseSpeed = 1,
      params = \<lparr>color1 = \<lparr>col_r = 1, col_g = 0, col_b = 0\<rparr>,
                color2 = \<lparr>col_r = 1, col_g = 0, col_b = 1\<rparr>,
                springStrength = 0.1, damping = 0.5, noiseStrength = 6\<rparr>,
      drawCount = 1, rotation_y = 0\<rparr>"

text \<open>Draws for that particle: no noise along \<open>x\<close> and \<open>y\<close>, 0.9 for \<open>z\<close>.\<close>

definition one_draws :: "nat \<Rightarrow> real" where
  "one_draws k = (if k = 2 then 0.9 else 0.5)"

text \<open>
  Hands for the examples: a fist with the index, middle and ring finger folded and the
  little finger stretched, and an open hand with all landmarks but the wrist at one point.
\<close>

definition fist_hand :: "landmark list" where
  "fist_hand =
     (replicate 21 \<lparr>lm_x = 0.45, lm_y = 0.4, lm_z = 0\<rparr>)
       [0 := \<lparr>lm_x = 0.75, lm_y = 0.8, lm_z = 0\<rparr>,
        8 := \<lparr>lm_x = 0.69, lm_y = 0.72, lm_z = 0\<rparr>,
        12 := \<lparr>lm_x = 0.69, lm_y = 0.72, lm_z = 0\<rparr>,
        16 := \<lparr>lm_x = 0.69, lm_y = 0.72, lm_z = 0\<rparr>,
        18 := \<lparr>lm_x = 0.69, lm_y = 0.72, lm_z = 0\<rparr>]"

definition open_hand :: "real \<Rightarrow> real \<Rightarrow> landmark list" where
  "open_hand wx wy =
     (replicate 21 \<lparr>lm_x = wx + 0.03, lm_y = wy - 0.04, lm_z = 0\<rparr>)
       [0 := \<lparr>lm_x = wx, lm_y = wy, lm_z = 0\<rparr>]"

section \<open>The classifier: lemmas\<close>

lemma seq_simps [simp]: "seq (Inl e) f = Inl e" "seq (Inr v) f = f v"
  by (simp_all add: seq_def)

lemma prop_of_ok [simp]: "i < length lms \<Longrightarrow> prop_of lms i = Inr (lms ! i)"
  by (simp add: prop_of_def)

lemma prop_of_fail [simp]: "\<not> i < length lms \<Longrightarrow> prop_of lms i = Inl TypeError"
  by (simp add: prop_of_def)

lemma prop_of_error: "prop_of lms i = Inl e \<Longrightarrow> e = TypeError"
  by (simp add: prop_of_def split: if_splits)

lemma seq_error:
  assumes "seq m f = Inl e" "\<And>e'. m = Inl e' \<Longrightarrow> e' = TypeError"
    "\<And>v e'. m = Inr v \<Longrightarrow> f v = Inl e' \<Longrightarrow> e' = TypeError"
  shows "e = TypeError"
  using assms by (cases m) auto

lemma isFist_loop_error: "isFist_loop lms js n = Inl e \<Longrightarrow> e = TypeError"
proof (induction js arbitrary: n e)
  case Nil
  then show ?case by simp
next
  case (Cons j js)
  from Cons.prems show ?case
    apply (simp only: isFist_loop.simps)
    apply (erule seq_error, erule prop_of_error)
    apply (erule seq_error, erule prop_of_error)
    apply (erule seq_error, erule prop_of_error)
    apply (simp only: Let_def)
    apply (erule Cons.IH)
    done
qed

lemma isFist_error: "isFist lms = Inl e \<Longrightarrow> e = TypeError"
  unfolding isFist_def by (erule seq_error) (blast dest: isFist_loop_error)+

lemma hypot_planar: "hypot (lm_x p - lm_x q) (lm_y p - lm_y q) = planar_dist p q"
  by (simp add: hypot_def planar_dist_def power2_eq_square)

lemma isFist_ok:
  assumes "21 \<le> length lms"
  shows "isFist lms = Inr (fist_shape lms)"
proof -
  have l: "0 < length lms" "6 < length lms" "8 < length lms" "10 < length lms"
    "12 < length lms" "14 < length lms" "16 < length lms" "18 < length lms"
    "20 < length lms"
    using assms by linarith+
  show ?thesis
    using l
    by (simp add: isFist_def tips_def pips_def Let_def hypot_planar fist_shape_def
        finger_folded_def)
qed

lemma isFist_loop_short:
  "length lms < 21 \<Longrightarrow> 3 \<in> set js \<Longrightarrow> isFist_loop lms js n = Inl TypeError"
proof (induction js arbitrary: n)
  case Nil
  then show ?case by simp
next
  case (Cons j js)
  show ?case
  proof (cases "isFist_loop lms (j # js) n")
    case (Inl e)
    then show ?thesis using isFist_loop_error by blast
  next
    case (Inr m)
    show ?thesis
    proof (cases "j = 3")
      case True
      then have "\<not> tips ! j < length lms" using Cons.prems(1) by (simp add: tips_def)
      then show ?thesis by simp
    next
      case False
      then have "3 \<in> set js" using Cons.prems by simp
      then have IH: "\<And>m. isFist_loop lms js m = Inl TypeError" using Cons by simp
      from Inr show ?thesis
        by (simp add: IH seq_def Let_def split: sum.splits)
    qed
  qed
qed

lemma isFist_short: "length lms < 21 \<Longrightarrow> isFist lms = Inl TypeError"
  unfolding isFist_def using isFist_loop_short [of lms "[0, 1, 2, 3]" 0]
  by (simp del: isFist_loop.simps)

lemma processResult_error: "processResult hs = Inl e \<Longrightarrow> e = TypeError"
  by (auto simp: processResult_def Let_def seq_def split: if_splits sum.splits
      dest: prop_of_error isFist_error)

lemma processResult_short:
  assumes "i < length hs" "i < 2" "length (hs ! i) < 21"
  shows "processResult hs = Inl TypeError"
proof (cases "processResult hs")
  case (Inl e)
  then show ?thesis using processResult_error by blast
next
  case (Inr st)
  have pos: "0 < length hs" using assms(1) by linarith
  show ?thesis
  proof (cases "length (hs ! 0) < 21")
    case True
    then have "isFist (hs ! 0) = Inl TypeError" by (rule isFist_short)
    with Inr pos show ?thesis
      by (simp add: processResult_def Let_def seq_def split: sum.splits)
  next
    case False
    with assms have i: "i = 1" by (cases "i = 0") auto
    then have "1 < length hs" "isFist (hs ! 1) = Inl TypeError"
      using assms isFist_short by auto
    with Inr pos show ?thesis
      by (simp add: processResult_def Let_def seq_def split: sum.splits)
  qed
qed

lemma full_hands_0: "full_hands hs \<Longrightarrow> hs \<noteq> [] \<Longrightarrow> 21 \<le> length (hs ! 0)"
  by (cases hs) (simp_all add: full_hands_def)

lemma full_hands_1: "full_hands hs \<Longrightarrow> 1 < length hs \<Longrightarrow> 21 \<le> length (hs ! 1)"
  by (cases hs; cases "tl hs") (simp_all add: full_hands_def)

lemma processResult_full:
  assumes "full_hands hs" "hs \<noteq> []"
  shows "processResult hs =
    Inr (if fist_seen hs then
           \<lparr>gtype = CONTRACT, strength = 1, rotationY = Some (rotation_of hs)\<rparr>
         else if length hs = 2 then
           (if 0.5 < wrist_dist hs
            then \<lparr>gtype = EXPAND, strength = (wrist_dist hs - 0.5) * 2,
                  rotationY = Some (rotation_of hs)\<rparr>
            else \<lparr>gtype = IDLE, strength = 0, rotationY = Some (rotation_of hs)\<rparr>)
         else
           (if 0.25 < pinch_dist hs
            then \<lparr>gtype = EXPAND, strength = (pinch_dist hs - 0.25) * 3,
                  rotationY = Some (rotation_of hs)\<rparr>
            else \<lparr>gtype = IDLE, strength = 0, rotationY = Some (rotation_of hs)\<rparr>))"
proof -
  have h0: "21 \<le> length (hs ! 0)" using assms by (rule full_hands_0)
  have h1: "1 < length hs \<Longrightarrow> 21 \<le> length (hs ! 1)" using assms(1) by (rule full_hands_1)
  have f0: "isFist (hs ! 0) = Inr (fist_shape (hs ! 0))" using h0 by (rule isFist_ok)
  have f1: "1 < length hs \<Longrightarrow> isFist (hs ! 1) = Inr (fist_shape (hs ! 1))"
    using h1 by (rule isFist_ok)
  have p: "0 < length (hs ! 0)" "4 < length (hs ! 0)" "8 < length (hs ! 0)"
    using h0 by linarith+
  have p1: "length hs = 2 \<Longrightarrow> 0 < length (hs ! 1)" using h1 by fastforce
  show ?thesis
    using assms(2) p p1 f0 f1
    by (simp add: processResult_def Let_def fist_seen_def rotation_of_def wrist_dist_def
        pinch_dist_def hypot_planar)
qed

lemma processResult_none: "processResult [] = Inr \<lparr>gtype = IDLE, strength = 0, rotationY = None\<rparr>"
  by (simp add: processResult_def)

lemma planar_dist_eq:
  assumes "0 \<le> d" "(lm_x p - lm_x q)\<^sup>2 + (lm_y p - lm_y q)\<^sup>2 = d\<^sup>2"
  shows "planar_dist p q = d"
  unfolding planar_dist_def assms(2) using assms(1) by simp

lemma planar_dist_less:
  "planar_dist p q < planar_dist p' q' \<longleftrightarrow>
   (lm_x p - lm_x q)\<^sup>2 + (lm_y p - lm_y q)\<^sup>2 < (lm_x p' - lm_x q')\<^sup>2 + (lm_y p' - lm_y q')\<^sup>2"
  by (simp add: planar_dist_def)

lemma fist_hand_full: "full_hands [fist_hand]"
  by (simp add: full_hands_def fist_hand_def)

lemma fist_hand_fist: "fist_shape fist_hand"
  by (simp add: fist_shape_def finger_folded_def planar_dist_less fist_hand_def power2_eq_square)

lemma open_hand_length [simp]: "length (open_hand wx wy) = 21"
  by (simp add: open_hand_def)

lemma open_hand_nth:
  "open_hand wx wy ! 0 = \<lparr>lm_x = wx, lm_y = wy, lm_z = 0\<rparr>"
  "0 < k \<Longrightarrow> k < 21 \<Longrightarrow> open_hand wx wy ! k = \<lparr>lm_x = wx + 0.03, lm_y = wy - 0.04, lm_z = 0\<rparr>"
  by (simp_all add: open_hand_def)

lemma open_hand_no_fist: "\<not> fist_shape (open_hand wx wy)"
  by (simp add: fist_shape_def finger_folded_def open_hand_nth)

text \<open>
  Claim C2, as the code has it: when hand 0 or hand 1 has fewer than 21 landmarks, the
  classifier throws and hands no gesture state to its callback. There is no check of the
  landmark count: what is thrown is the TypeError of the language, raised when a
  property of the missing landmark is read, and never \<open>InvalidLandmarkSet\<close>.
\<close>

theorem short_hand_throws_TypeError:
  "i < length landmarks \<Longrightarrow> i < 2 \<Longrightarrow> length (landmarks ! i) < 21 \<Longrightarrow>
   processResult landmarks = Inl TypeError"
  by (rule processResult_short)

theorem short_hand_throws_TypeError_witness:
  "processResult [replicate 20 \<lparr>lm_x = 0.5, lm_y = 0.5, lm_z = 0\<rparr>] = Inl TypeError"
  using short_hand_throws_TypeError [of 0 "[replicate 20 \<lparr>lm_x = 0.5, lm_y = 0.5, lm_z = 0\<rparr>]"]
  by simp

theorem short_hand_counterexample:
  "length (replicate 20 \<lparr>lm_x = 0.5, lm_y = 0.5, lm_z = 0\<rparr>) < 21 \<and>
   processResult [replicate 20 \<lparr>lm_x = 0.5, lm_y = 0.5, lm_z = 0\<rparr>] \<noteq> Inl InvalidLandmarkSet"
  using processResult_short [of 0 "[replicate 20 \<lparr>lm_x = 0.5, lm_y = 0.5, lm_z = 0\<rparr>]"]
  by simp

text \<open>
  Claim C4: on hands with all their landmarks, \<open>isFist\<close> answers whether at least three
  of the four fingers have the tip strictly nearer to the wrist than the PIP joint; and
  when hand 0 is a fist, or a present hand 1 is, the result is \<open>CONTRACT\<close> with strength
  1, whatever the distances of the expand test are.
\<close>

theorem fist_gives_contract:
  assumes "full_hands hs" "hs \<noteq> []"
  shows "(\<forall>i < min 2 (length hs). isFist (hs ! i) = Inr (fist_shape (hs ! i))) \<and>
         (fist_seen hs \<longrightarrow>
            processResult hs =
              Inr \<lparr>gtype = CONTRACT, strength = 1.0, rotationY = Some (rotation_of hs)\<rparr>)"
proof (intro conjI allI impI)
  fix i assume "i < min 2 (length hs)"
  then have "i = 0 \<or> (i = 1 \<and> 1 < length hs)" by auto
  then have "21 \<le> length (hs ! i)"
    using assms full_hands_0 full_hands_1 by auto
  then show "isFist (hs ! i) = Inr (fist_shape (hs ! i))" by (rule isFist_ok)
next
  assume "fist_seen hs"
  then show "processResult hs =
      Inr \<lparr>gtype = CONTRACT, strength = 1.0, rotationY = Some (rotation_of hs)\<rparr>"
    using processResult_full [OF assms] by simp
qed

theorem fist_gives_contract_witness:
  "isFist fist_hand = Inr True \<and>
   0.5 < wrist_dist [open_hand 0.1 0.1, fist_hand] \<and>
   processResult [open_hand 0.1 0.1, fist_hand] =
     Inr \<lparr>gtype = CONTRACT, strength = 1, rotationY = Some ((0.1 - 0.5) * (2 * pi))\<rparr>"
proof -
  have d: "wrist_dist [open_hand 0.1 0.1, fist_hand] = sqrt (0.9125)"
    by (simp add: wrist_dist_def planar_dist_def open_hand_nth fist_hand_def power2_eq_square)
  have "sqrt ((0.5)\<^sup>2) < sqrt (0.9125)"
    by (subst real_sqrt_less_iff) (simp add: power2_eq_square)
  then have far: "0.5 < wrist_dist [open_hand 0.1 0.1, fist_hand]"
    unfolding d by simp
  have f: "full_hands [open_hand 0.1 0.1, fist_hand]"
    by (simp add: full_hands_def fist_hand_def)
  have seen: "fist_seen [open_hand 0.1 0.1, fist_hand]"
    by (simp add: fist_seen_def fist_hand_fist)
  show ?thesis
    using fist_gives_contract [of "[open_hand 0.1 0.1, fist_hand]"] f seen far
      fist_hand_fist
    by (auto simp: rotation_of_def open_hand_nth)
qed

text \<open>
  Claim C5: with no fist, two hands give \<open>EXPAND\<close> with strength \<open>(dist - 0.5) * 2\<close> when
  the wrists are more than 0.5 apart, one hand gives \<open>EXPAND\<close> with strength
  \<open>(dist - 0.25) * 3\<close> when thumb tip and index tip are more than 0.25 apart, and every
  other case gives \<open>IDLE\<close> with strength 0. The strength is not clamped: a pinch
  distance of 1 gives a strength above 1.
\<close>

theorem no_fist_expand_or_idle:
  "(full_hands hs \<and> length hs \<le> 2 \<and> \<not> fist_seen hs \<longrightarrow>
      (length hs = 2 \<longrightarrow>
         processResult hs =
           Inr (if 0.5 < wrist_dist hs
                then \<lparr>gtype = EXPAND, strength = (wrist_dist hs - 0.5) * 2,
                      rotationY = Some (rotation_of hs)\<rparr>
                else \<lparr>gtype = IDLE, strength = 0, rotationY = Some (rotation_of hs)\<rparr>)) \<and>
      (length hs = 1 \<longrightarrow>
         processResult hs =
           Inr (if 0.25 < pinch_dist hs
                then \<lparr>gtype = EXPAND, strength = (pinch_dist hs - 0.25) * 3,
                      rotationY = Some (rotation_of hs)\<rparr>
                else \<lparr>gtype = IDLE, strength = 0, rotationY = Some (rotation_of hs)\<rparr>)) \<and>
      (length hs = 0 \<longrightarrow>
         processResult hs = Inr \<lparr>gtype = IDLE, strength = 0, rotationY = None\<rparr>)) \<and>
   (\<exists>hs' st. full_hands hs' \<and> length hs' = 1 \<and> \<not> fist_seen hs' \<and>
       processResult hs' = Inr st \<and> gtype st = EXPAND \<and> 1 < strength st)"
proof (intro conjI impI)
  assume a: "full_hands hs \<and> length hs \<le> 2 \<and> \<not> fist_seen hs" and l: "length hs = 2"
  then have "hs \<noteq> []" by auto
  with a l show "processResult hs =
           Inr (if 0.5 < wrist_dist hs
                then \<lparr>gtype = EXPAND, strength = (wrist_dist hs - 0.5) * 2,
                      rotationY = Some (rotation_of hs)\<rparr>
                else \<lparr>gtype = IDLE, strength = 0, rotationY = Some (rotation_of hs)\<rparr>)"
    by (simp add: processResult_full)
next
  assume a: "full_hands hs \<and> length hs \<le> 2 \<and> \<not> fist_seen hs" and l: "length hs = 1"
  then have "hs \<noteq> []" by auto
  with a l show "processResult hs =
           Inr (if 0.25 < pinch_dist hs
                then \<lparr>gtype = EXPAND, strength = (pinch_dist hs - 0.25) * 3,
                      rotationY = Some (rotation_of hs)\<rparr>
                else \<lparr>gtype = IDLE, strength = 0, rotationY = Some (rotation_of hs)\<rparr>)"
    by (simp add: processResult_full)
next
  assume "length hs = 0"
  then show "processResult hs = Inr \<lparr>gtype = IDLE, strength = 0, rotationY = None\<rparr>"
    by (simp add: processResult_none)
next
  let ?h = "(open_hand 0.2 0.9)[8 := \<lparr>lm_x = 0.83, lm_y = 0.06, lm_z = 0\<rparr>]"
  have f: "full_hands [?h]" by (simp add: full_hands_def)
  have n: "\<not> fist_seen [?h]"
    by (simp add: fist_seen_def fist_shape_def finger_folded_def planar_dist_less
        open_hand_nth power2_eq_square)
  have d: "pinch_dist [?h] = 1"
    unfolding pinch_dist_def
    by (rule planar_dist_eq) (simp_all add: open_hand_nth power2_eq_square)
  have "processResult [?h] =
      Inr \<lparr>gtype = EXPAND, strength = (1 - 0.25) * 3, rotationY = Some (rotation_of [?h])\<rparr>"
    using processResult_full [OF f] n d by simp
  then show "\<exists>hs' st. full_hands hs' \<and> length hs' = 1 \<and> \<not> fist_seen hs' \<and>
       processResult hs' = Inr st \<and> gtype st = EXPAND \<and> 1 < strength st"
    using f n by (intro exI [of _ "[?h]"] exI) auto
qed

theorem no_fist_expand_or_idle_witness:
  "wrist_dist [open_hand 0.2 0.3, open_hand 0.56 0.78] = 0.6 \<and>
   processResult [open_hand 0.2 0.3, open_hand 0.56 0.78] =
     Inr \<lparr>gtype = EXPAND, strength = 0.2, rotationY = Some ((0.2 - 0.5) * (2 * pi))\<rparr>"
proof -
  have d: "wrist_dist [open_hand 0.2 0.3, open_hand 0.56 0.78] = 0.6"
    unfolding wrist_dist_def
    by (rule planar_dist_eq) (simp_all add: open_hand_nth power2_eq_square)
  have f: "full_hands [open_hand 0.2 0.3, open_hand 0.56 0.78]"
    by (simp add: full_hands_def)
  have n: "\<not> fist_seen [open_hand 0.2 0.3, open_hand 0.56 0.78]"
    by (simp add: fist_seen_def open_hand_no_fist)
  show ?thesis
    using no_fist_expand_or_idle [of "[open_hand 0.2 0.3, open_hand 0.56 0.78]"] f n d
    by (simp add: rotation_of_def open_hand_nth)
qed

text \<open>
  Claim C7: with no hand the result is \<open>IDLE\<close>, strength 0, no rotation; with a hand,
  whatever the gesture, the rotation is \<open>(wrist.x - 0.5) * 2 * pi\<close> for the wrist of
  hand 0: 0 at 0.5, \<open>pi\<close> at 1 and \<open>- pi\<close> at 0.
\<close>

theorem rotation_from_wrist:
  "processResult [] = Inr \<lparr>gtype = IDLE, strength = 0, rotationY = None\<rparr> \<and>
   (full_hands hs \<and> hs \<noteq> [] \<longrightarrow>
      (\<exists>st. processResult hs = Inr st \<and>
            rotationY st = Some ((lm_x (hs ! 0 ! 0) - 0.5) * (2 * pi)) \<and>
            (lm_x (hs ! 0 ! 0) = 0.5 \<longrightarrow> rotationY st = Some 0) \<and>
            (lm_x (hs ! 0 ! 0) = 1.0 \<longrightarrow> rotationY st = Some pi) \<and>
            (lm_x (hs ! 0 ! 0) = 0.0 \<longrightarrow> rotationY st = Some (- pi))))"
proof (intro conjI impI)
  show "processResult [] = Inr \<lparr>gtype = IDLE, strength = 0, rotationY = None\<rparr>"
    by (rule processResult_none)
next
  assume a: "full_hands hs \<and> hs \<noteq> []"
  then obtain st where st: "processResult hs = Inr st"
    and r: "rotationY st = Some (rotation_of hs)"
    using processResult_full [of hs] by (auto split: if_splits)
  have "rotationY st = Some ((lm_x (hs ! 0 ! 0) - 0.5) * (2 * pi))"
    using r by (simp add: rotation_of_def)
  then show "\<exists>st. processResult hs = Inr st \<and>
            rotationY st = Some ((lm_x (hs ! 0 ! 0) - 0.5) * (2 * pi)) \<and>
            (lm_x (hs ! 0 ! 0) = 0.5 \<longrightarrow> rotationY st = Some 0) \<and>
            (lm_x (hs ! 0 ! 0) = 1.0 \<longrightarrow> rotationY st = Some pi) \<and>
            (lm_x (hs ! 0 ! 0) = 0.0 \<longrightarrow> rotationY st = Some (- pi))"
    using st by (intro exI [of _ st]) auto
qed

theorem rotation_from_wrist_witness:
  "\<exists>st. processResult [replicate 21 \<lparr>lm_x = 1, lm_y = 0.5, lm_z = 0\<rparr>] = Inr st \<and>
        rotationY st = Some pi"
  using rotation_from_wrist [of "[replicate 21 \<lparr>lm_x = 1, lm_y = 0.5, lm_z = 0\<rparr>]"]
  by (auto simp: full_hands_def)

section \<open>The simulation: lemmas\<close>

lemma update_particle_fields [simp]:
  "targetArray (update_particle dt g ps rnd i s) = targetArray s"
  "params (update_particle dt g ps rnd i s) = params s"
  "maxCount (update_particle dt g ps rnd i s) = maxCount s"
  "currentCount (update_particle dt g ps rnd i s) = currentCount s"
  "time (update_particle dt g ps rnd i s) = time s"
  "pulseSpeed (update_particle dt g ps rnd i s) = pulseSpeed s"
  "drawCount (update_particle dt g ps rnd i s) = drawCount s"
  "rotation_y (update_particle dt g ps rnd i s) = rotation_y s"
  by (simp_all add: update_particle_def Let_def)

lemma add_force_length [simp]: "length (add_force f i vel) = length vel"
  by (simp add: add_force_def split: prod.splits)

lemma damp_length [simp]: "length (damp d i vel) = length vel"
  by (simp add: damp_def)

lemma move_length [simp]: "length (move i vel pos) = length pos"
  by (simp add: move_def)

lemma recolor_length [simp]: "length (recolor prm i vel colors) = length colors"
  by (simp add: recolor_def Let_def)

lemma update_particle_length [simp]:
  "length (posArray (update_particle dt g ps rnd i s)) = length (posArray s)"
  "length (velArray (update_particle dt g ps rnd i s)) = length (velArray s)"
  "length (colorArray (update_particle dt g ps rnd i s)) = length (colorArray s)"
  by (simp_all add: update_particle_def Let_def)

lemma outside_particle:
  assumes "m < i * 3 \<or> i * 3 + 2 < m"
  shows "add_force f i vel ! m = vel ! m" "damp d i vel ! m = vel ! m"
    "move i vel pos ! m = pos ! m" "recolor prm i vel colors ! m = colors ! m"
  using assms by (auto simp: add_force_def damp_def move_def recolor_def Let_def split: prod.splits)

lemma update_particle_frame:
  assumes "m < i * 3 \<or> i * 3 + 2 < m"
  shows "posArray (update_particle dt g ps rnd i s) ! m = posArray s ! m"
    and "velArray (update_particle dt g ps rnd i s) ! m = velArray s ! m"
    and "colorArray (update_particle dt g ps rnd i s) ! m = colorArray s ! m"
  using assms by (simp_all add: update_particle_def Let_def outside_particle)

lemma particle_force_eq:
  "particle_force dt g ps rnd i s =
     (f_spring s ps (i * 3) + f_gesture dt g s i (i * 3) + f_noise rnd s (i * 3),
      f_spring s ps (i * 3 + 1) + f_gesture dt g s i (i * 3 + 1) + f_noise rnd s (i * 3 + 1),
      f_spring s ps (i * 3 + 2) + f_gesture dt g s i (i * 3 + 2) + f_noise rnd s (i * 3 + 2))"
  by (cases "gtype g")
    (simp_all add: particle_force_def Let_def f_spring_def f_gesture_def f_noise_def
      expand_len_def power2_eq_square mult.commute [of 3 i])

lemma inside_velocity:
  assumes "i * 3 + 2 < length vel" "k < 3"
  shows "damp d i (add_force (f0, f1, f2) i vel) ! (i * 3 + k) =
         (vel ! (i * 3 + k) + (if k = 0 then f0 else if k = 1 then f1 else f2)) * d"
proof -
  from assms(2) have "k = 0 \<or> k = 1 \<or> k = 2" by auto
  then show ?thesis using assms(1) by (auto simp: damp_def add_force_def)
qed

lemma update_particle_vel:
  assumes "i * 3 + 2 < length (velArray s)" "k < 3"
  shows "velArray (update_particle dt g ps rnd i s) ! (i * 3 + k) =
         step_velocity dt g ps rnd s i (i * 3 + k)"
proof -
  have "velArray (update_particle dt g ps rnd i s) =
        damp (damping (params s)) i (add_force (particle_force dt g ps rnd i s) i (velArray s))"
    by (simp add: update_particle_def Let_def)
  then have "velArray (update_particle dt g ps rnd i s) ! (i * 3 + k) =
      (velArray s ! (i * 3 + k) +
        (if k = 0 then f_spring s ps (i * 3) + f_gesture dt g s i (i * 3) + f_noise rnd s (i * 3)
         else if k = 1 then f_spring s ps (i * 3 + 1) + f_gesture dt g s i (i * 3 + 1)
                              + f_noise rnd s (i * 3 + 1)
         else f_spring s ps (i * 3 + 2) + f_gesture dt g s i (i * 3 + 2)
                + f_noise rnd s (i * 3 + 2))) * damping (params s)"
    unfolding particle_force_eq using inside_velocity [OF assms] by simp
  moreover from assms(2) have "k = 0 \<or> k = 1 \<or> k = 2" by auto
  ultimately show ?thesis
    by (auto simp: step_velocity_def)
qed

lemma update_particle_pos_eq:
  "posArray (update_particle dt g ps rnd i s) =
     move i (velArray (update_particle dt g ps rnd i s)) (posArray s)"
  by (simp add: update_particle_def Let_def)

lemma update_particle_col_eq:
  "colorArray (update_particle dt g ps rnd i s) =
     recolor (params s) i (velArray (update_particle dt g ps rnd i s)) (colorArray s)"
  by (simp add: update_particle_def Let_def)

lemma update_particle_pos:
  assumes "i * 3 + 2 < length (velArray s)" "i * 3 + 2 < length (posArray s)" "k < 3"
  shows "posArray (update_particle dt g ps rnd i s) ! (i * 3 + k) =
         posArray s ! (i * 3 + k) + step_velocity dt g ps rnd s i (i * 3 + k)"
proof -
  have v: "\<And>j. j < 3 \<Longrightarrow> velArray (update_particle dt g ps rnd i s) ! (i * 3 + j) =
        step_velocity dt g ps rnd s i (i * 3 + j)"
    using assms(1) by (simp add: update_particle_vel)
  from assms(3) have "k = 0 \<or> k = 1 \<or> k = 2" by auto
  then show ?thesis
    using assms(2) v [of 0] v [of 1] v [of 2]
    by (subst update_particle_pos_eq) (auto simp: move_def)
qed

lemma update_particle_col:
  assumes "i * 3 + 2 < length (velArray s)" "i * 3 + 2 < length (colorArray s)" "k < 3"
  shows "colorArray (update_particle dt g ps rnd i s) ! (i * 3 + k) =
         step_color dt g ps rnd s i k"
proof -
  have v: "\<And>j. j < 3 \<Longrightarrow> velArray (update_particle dt g ps rnd i s) ! (i * 3 + j) =
        step_velocity dt g ps rnd s i (i * 3 + j)"
    using assms(1) by (simp add: update_particle_vel)
  from assms(3) have "k = 0 \<or> k = 1 \<or> k = 2" by auto
  then show ?thesis
    using assms(2) v [of 0] v [of 1] v [of 2]
    by (subst update_particle_col_eq)
      (auto simp: recolor_def lerp_def step_color_def step_speed_def channel_def Let_def)
qed


lemma step_velocity_cong:
  assumes "params s = params s'" "targetArray s = targetArray s'"
    and "\<And>j. i * 3 \<le> j \<Longrightarrow> posArray s ! j = posArray s' ! j"
    and "\<And>j. i * 3 \<le> j \<Longrightarrow> velArray s ! j = velArray s' ! j"
    and "i * 3 \<le> m"
  shows "step_velocity dt g ps rnd s i m = step_velocity dt g ps rnd s' i m"
proof -
  have a: "posArray s ! m = posArray s' ! m" "velArray s ! m = velArray s' ! m"
    "posArray s ! (i * 3) = posArray s' ! (i * 3)"
    "posArray s ! (i * 3 + 1) = posArray s' ! (i * 3 + 1)"
    "posArray s ! (i * 3 + 2) = posArray s' ! (i * 3 + 2)"
    using assms(3-5) by simp_all
  show ?thesis
    unfolding step_velocity_def f_spring_def f_gesture_def f_noise_def
    by (simp only: a assms(1,2))
qed

lemma step_color_cong:
  assumes "params s = params s'" "targetArray s = targetArray s'"
    and "\<And>j. i * 3 \<le> j \<Longrightarrow> posArray s ! j = posArray s' ! j"
    and "\<And>j. i * 3 \<le> j \<Longrightarrow> velArray s ! j = velArray s' ! j"
  shows "step_color dt g ps rnd s i k = step_color dt g ps rnd s' i k"
proof -
  have "\<And>m. i * 3 \<le> m \<Longrightarrow>
      step_velocity dt g ps rnd s i m = step_velocity dt g ps rnd s' i m"
    using assms by (rule step_velocity_cong)
  then show ?thesis
    using assms(1) by (simp add: step_color_def step_speed_def)
qed

lemma loop_fields:
  "targetArray (fold (update_particle dt g ps rnd) [0..<n] s) = targetArray s"
  "params (fold (update_particle dt g ps rnd) [0..<n] s) = params s"
  "maxCount (fold (update_particle dt g ps rnd) [0..<n] s) = maxCount s"
  "currentCount (fold (update_particle dt g ps rnd) [0..<n] s) = currentCount s"
  "time (fold (update_particle dt g ps rnd) [0..<n] s) = time s"
  "pulseSpeed (fold (update_particle dt g ps rnd) [0..<n] s) = pulseSpeed s"
  "drawCount (fold (update_particle dt g ps rnd) [0..<n] s) = drawCount s"
  "rotation_y (fold (update_particle dt g ps rnd) [0..<n] s) = rotation_y s"
  "length (posArray (fold (update_particle dt g ps rnd) [0..<n] s)) = length (posArray s)"
  "length (velArray (fold (update_particle dt g ps rnd) [0..<n] s)) = length (velArray s)"
  "length (colorArray (fold (update_particle dt g ps rnd) [0..<n] s)) = length (colorArray s)"
  by (induction n) simp_all

lemma loop_frame:
  assumes "n * 3 \<le> m"
  shows "posArray (fold (update_particle dt g ps rnd) [0..<n] s) ! m = posArray s ! m"
    and "velArray (fold (update_particle dt g ps rnd) [0..<n] s) ! m = velArray s ! m"
    and "colorArray (fold (update_particle dt g ps rnd) [0..<n] s) ! m = colorArray s ! m"
  using assms by (induction n) (simp_all add: update_particle_frame)

lemma loop_vel:
  assumes "i < n" "k < 3" "n * 3 \<le> length (velArray s)"
  shows "velArray (fold (update_particle dt g ps rnd) [0..<n] s) ! (i * 3 + k) =
           step_velocity dt g ps rnd s i (i * 3 + k)"
  using assms
proof (induction n)
  case 0
  then show ?case by simp
next
  case (Suc n)
  let ?L = "fold (update_particle dt g ps rnd) [0..<n] s"
  show ?case
  proof (cases "i = n")
    case True
    have "velArray (update_particle dt g ps rnd n ?L) ! (n * 3 + k) =
          step_velocity dt g ps rnd ?L n (n * 3 + k)"
      using Suc.prems by (intro update_particle_vel) (simp_all add: loop_fields)
    also have "\<dots> = step_velocity dt g ps rnd s n (n * 3 + k)"
      by (rule step_velocity_cong) (simp_all add: loop_fields loop_frame)
    finally show ?thesis using True by simp
  next
    case False
    then have "i < n" using Suc.prems by simp
    then show ?thesis using Suc by (simp add: update_particle_frame)
  qed
qed

lemma loop_pos:
  assumes "i < n" "k < 3" "n * 3 \<le> length (velArray s)" "n * 3 \<le> length (posArray s)"
  shows "posArray (fold (update_particle dt g ps rnd) [0..<n] s) ! (i * 3 + k) =
           posArray s ! (i * 3 + k) + step_velocity dt g ps rnd s i (i * 3 + k)"
  using assms
proof (induction n)
  case 0
  then show ?case by simp
next
  case (Suc n)
  let ?L = "fold (update_particle dt g ps rnd) [0..<n] s"
  show ?case
  proof (cases "i = n")
    case True
    have "posArray (update_particle dt g ps rnd n ?L) ! (n * 3 + k) =
          posArray ?L ! (n * 3 + k) + step_velocity dt g ps rnd ?L n (n * 3 + k)"
      using Suc.prems by (intro update_particle_pos) (simp_all add: loop_fields)
    also have "step_velocity dt g ps rnd ?L n (n * 3 + k) =
               step_velocity dt g ps rnd s n (n * 3 + k)"
      by (rule step_velocity_cong) (simp_all add: loop_fields loop_frame)
    finally show ?thesis using True by (simp add: loop_frame)
  next
    case False
    then have "i < n" using Suc.prems by simp
    then show ?thesis using Suc by (simp add: update_particle_frame)
  qed
qed

lemma loop_col:
  assumes "i < n" "k < 3" "n * 3 \<le> length (velArray s)" "n * 3 \<le> length (colorArray s)"
  shows "colorArray (fold (update_particle dt g ps rnd) [0..<n] s) ! (i * 3 + k) =
           step_color dt g ps rnd s i k"
  using assms
proof (induction n)
  case 0
  then show ?case by simp
next
  case (Suc n)
  let ?L = "fold (update_particle dt g ps rnd) [0..<n] s"
  show ?case
  proof (cases "i = n")
    case True
    have "colorArray (update_particle dt g ps rnd n ?L) ! (n * 3 + k) =
          step_color dt g ps rnd ?L n k"
      using Suc.prems by (intro update_particle_col) (simp_all add: loop_fields)
    also have "\<dots> = step_color dt g ps rnd s n k"
      by (rule step_color_cong) (simp_all add: loop_fields loop_frame)
    finally show ?thesis using True by simp
  next
    case False
    then have "i < n" using Suc.prems by simp
    then show ?thesis using Suc by (simp add: update_particle_frame)
  qed
qed

lemma step_velocity_time [simp]:
  "step_velocity dt g ps rnd (s\<lparr>time := t\<rparr>) i m = step_velocity dt g ps rnd s i m"
  by (cases "gtype g") (simp_all add: step_velocity_def f_spring_def f_gesture_def f_noise_def)

lemma step_color_time [simp]:
  "step_color dt g ps rnd (s\<lparr>time := t\<rparr>) i k = step_color dt g ps rnd s i k"
  by (simp add: step_color_def step_speed_def)

lemma update_arrays:
  "posArray (update dt g rnd s) =
     posArray (fold (update_particle dt g (beat (time s + dt * pulseSpeed s)) rnd)
       [0..<nat (currentCount s)] (s\<lparr>time := time s + dt * pulseSpeed s\<rparr>))"
  "velArray (update dt g rnd s) =
     velArray (fold (update_particle dt g (beat (time s + dt * pulseSpeed s)) rnd)
       [0..<nat (currentCount s)] (s\<lparr>time := time s + dt * pulseSpeed s\<rparr>))"
  "colorArray (update dt g rnd s) =
     colorArray (fold (update_particle dt g (beat (time s + dt * pulseSpeed s)) rnd)
       [0..<nat (currentCount s)] (s\<lparr>time := time s + dt * pulseSpeed s\<rparr>))"
  "targetArray (update dt g rnd s) = targetArray s"
  "maxCount (update dt g rnd s) = maxCount s"
  "currentCount (update dt g rnd s) = currentCount s"
  by (simp_all add: update_def Let_def loop_fields split: option.splits)

lemma update_active:
  assumes "buffers_ok s" "int i < currentCount s" "currentCount s \<le> maxCount s" "k < 3"
  shows "velArray (update dt g rnd s) ! (i * 3 + k) =
           step_velocity dt g (beat (time s + dt * pulseSpeed s)) rnd s i (i * 3 + k)"
    and "posArray (update dt g rnd s) ! (i * 3 + k) =
           posArray s ! (i * 3 + k)
             + step_velocity dt g (beat (time s + dt * pulseSpeed s)) rnd s i (i * 3 + k)"
    and "colorArray (update dt g rnd s) ! (i * 3 + k) =
           step_color dt g (beat (time s + dt * pulseSpeed s)) rnd s i k"
proof -
  let ?n = "nat (currentCount s)"
  have i: "i < ?n" using assms(2) by simp
  have "?n * 3 \<le> nat (maxCount s * 3)" using assms(2,3) by simp
  then have n: "?n * 3 \<le> length (posArray s)" "?n * 3 \<le> length (velArray s)"
    "?n * 3 \<le> length (colorArray s)"
    using assms(1) by (simp_all add: buffers_ok_def)
  show "velArray (update dt g rnd s) ! (i * 3 + k) =
           step_velocity dt g (beat (time s + dt * pulseSpeed s)) rnd s i (i * 3 + k)"
    using i assms(4) n by (simp add: update_arrays loop_vel)
  show "posArray (update dt g rnd s) ! (i * 3 + k) =
           posArray s ! (i * 3 + k)
             + step_velocity dt g (beat (time s + dt * pulseSpeed s)) rnd s i (i * 3 + k)"
    using i assms(4) n by (simp add: update_arrays loop_pos)
  show "colorArray (update dt g rnd s) ! (i * 3 + k) =
           step_color dt g (beat (time s + dt * pulseSpeed s)) rnd s i k"
    using i assms(4) n by (simp add: update_arrays loop_col)
qed

lemma update_frozen:
  assumes "nat (currentCount s) * 3 \<le> m"
  shows "posArray (update dt g rnd s) ! m = posArray s ! m"
    and "velArray (update dt g rnd s) ! m = velArray s ! m"
    and "colorArray (update dt g rnd s) ! m = colorArray s ! m"
  using assms by (simp_all add: update_arrays loop_frame)

lemma update_lengths:
  "length (posArray (update dt g rnd s)) = length (posArray s)"
  "length (velArray (update dt g rnd s)) = length (velArray s)"
  "length (colorArray (update dt g rnd s)) = length (colorArray s)"
  by (simp_all add: update_arrays loop_fields)

lemma setParticleCount_fields [simp]:
  "currentCount (setParticleCount n s) = min n (maxCount s)"
  "maxCount (setParticleCount n s) = maxCount s"
  "posArray (setParticleCount n s) = posArray s"
  "targetArray (setParticleCount n s) = targetArray s"
  "velArray (setParticleCount n s) = velArray s"
  "colorArray (setParticleCount n s) = colorArray s"
  by (simp_all add: setParticleCount_def Let_def)

lemma beat_pulse_scale: "beat tm = pulse_scale tm"
  by (simp add: beat_def pulse_scale_def mult.commute)

lemma pulse_scale_eq: "pulse_scale tm = 1 + sin (3 * tm) * 0.05 * (1 - sin (3 * tm) * 0.5)"
  by (simp add: pulse_scale_def)

text \<open>
  Claim C3: for every active particle, one call of \<open>update\<close> adds the spring force,
  the gesture force and the noise to the velocity, then multiplies the velocity by the
  damping, then adds the new velocity to the position; the colour is the linear
  interpolation \<open>(1 - t) * colorLow + t * colorHigh\<close> with \<open>t = min (speed * 0.5) 1\<close> for
  the speed of the new velocity, and does not depend on the colour stored before.
\<close>

theorem update_step_order:
  assumes "buffers_ok s" "int i < currentCount s" "currentCount s \<le> maxCount s" "k < 3"
  shows "let s' = update dt g rnd s;
             pulseScale = pulse_scale (time s + dt * pulseSpeed s);
             m = i * 3 + k;
             t = min (sqrt ((velArray s' ! (i * 3))\<^sup>2 + (velArray s' ! (i * 3 + 1))\<^sup>2
                            + (velArray s' ! (i * 3 + 2))\<^sup>2) * 0.5) 1
         in velArray s' ! m =
              (velArray s ! m
                 + (f_spring s pulseScale m + f_gesture dt g s i m + f_noise rnd s m))
                * damping (params s) \<and>
            posArray s' ! m = posArray s ! m + velArray s' ! m \<and>
            colorArray s' ! m =
              (1 - t) * channel k (color1 (params s)) + t * channel k (color2 (params s))"
proof -
  let ?ps = "beat (time s + dt * pulseSpeed s)"
  have v: "\<And>j. j < 3 \<Longrightarrow> velArray (update dt g rnd s) ! (i * 3 + j) =
      step_velocity dt g ?ps rnd s i (i * 3 + j)"
    using assms(1-3) by (rule update_active(1))
  have p: "posArray (update dt g rnd s) ! (i * 3 + k) =
      posArray s ! (i * 3 + k) + step_velocity dt g ?ps rnd s i (i * 3 + k)"
    using assms by (rule update_active(2))
  have c: "colorArray (update dt g rnd s) ! (i * 3 + k) = step_color dt g ?ps rnd s i k"
    using assms by (rule update_active(3))
  have sp: "step_speed dt g ?ps rnd s i =
      sqrt ((velArray (update dt g rnd s) ! (i * 3))\<^sup>2
          + (velArray (update dt g rnd s) ! (i * 3 + 1))\<^sup>2
          + (velArray (update dt g rnd s) ! (i * 3 + 2))\<^sup>2)"
    using v [of 0] v [of 1] v [of 2] by (simp add: step_speed_def)
  show ?thesis
    unfolding Let_def beat_pulse_scale [symmetric]
    using v [OF assms(4)] p c
    by (simp only: step_color_def Let_def sp [symmetric] step_velocity_def)
qed

theorem update_step_order_witness:
  "velArray (update 1 \<lparr>gtype = EXPAND, strength = 0.010002, rotationY = None\<rparr> one_draws
      one_particle) = [0.3, 0.4, 1.2] \<and>
   posArray (update 1 \<lparr>gtype = EXPAND, strength = 0.010002, rotationY = None\<rparr> one_draws
      one_particle) = [3.3, 4.4, 1.2] \<and>
   colorArray (update 1 \<lparr>gtype = EXPAND, strength = 0.010002, rotationY = None\<rparr> one_draws
      one_particle) ! 2 = 0.65"
proof -
  let ?g = "\<lparr>gtype = EXPAND, strength = 0.010002, rotationY = None\<rparr>"
  let ?s' = "update 1 ?g one_draws one_particle"
  have sel: "posArray one_particle = [3, 4, 0]"
    "targetArray one_particle = [240 / 41, 320 / 41, 0]"
    "velArray one_particle = [0, 0, 0]"
    "springStrength (params one_particle) = 0.1"
    "damping (params one_particle) = 0.5"
    "noiseStrength (params one_particle) = 6"
    "col_b (color1 (params one_particle)) = 0"
    "col_b (color2 (params one_particle)) = 1"
    by (simp_all add: one_particle_def)
  have ok: "buffers_ok one_particle" "int 0 < currentCount one_particle"
    "currentCount one_particle \<le> maxCount one_particle"
    by (simp_all add: buffers_ok_def one_particle_def)
  have len: "sqrt (3\<^sup>2 + 4\<^sup>2 + 0\<^sup>2) = (5::real)"
    by (rule real_sqrt_unique) simp_all
  have ps: "pulse_scale (time one_particle + 1 * pulseSpeed one_particle) = 1.025"
    by (simp add: pulse_scale_eq one_particle_def)
  have f: "f_gesture 1 ?g one_particle 0 (0 * 3 + 0) = 0.3"
    "f_gesture 1 ?g one_particle 0 (0 * 3 + 1) = 0.4"
    "f_gesture 1 ?g one_particle 0 (0 * 3 + 2) = 0"
    unfolding f_gesture_def sel by (simp_all add: len)
  have sf: "f_spring one_particle 1.025 (0 * 3 + 0) = 0.3"
    "f_spring one_particle 1.025 (0 * 3 + 1) = 0.4"
    "f_spring one_particle 1.025 (0 * 3 + 2) = 0"
    unfolding f_spring_def sel by simp_all
  have nf: "f_noise one_draws one_particle (0 * 3 + 0) = 0"
    "f_noise one_draws one_particle (0 * 3 + 1) = 0"
    "f_noise one_draws one_particle (0 * 3 + 2) = 2.4"
    unfolding f_noise_def sel by (simp_all add: one_draws_def)
  have v0: "velArray ?s' ! 0 = 0.3" and p0: "posArray ?s' ! 0 = 3.3"
    using update_step_order [OF ok, of 0 1 ?g one_draws]
    unfolding Let_def ps f sf nf sel by simp_all
  have v1: "velArray ?s' ! 1 = 0.4" and p1: "posArray ?s' ! 1 = 4.4"
    using update_step_order [OF ok, of 1 1 ?g one_draws]
    unfolding Let_def ps f sf nf sel by simp_all
  have v2: "velArray ?s' ! 2 = 1.2" and p2: "posArray ?s' ! 2 = 1.2"
    using update_step_order [OF ok, of 2 1 ?g one_draws]
    unfolding Let_def ps f sf nf sel by (simp_all add: numeral_2_eq_2)
  note v = v0 v1 v2 and p = p0 p1 p2
  have sp: "sqrt ((0.3)\<^sup>2 + (0.4)\<^sup>2 + (1.2)\<^sup>2) = (1.3::real)"
    by (rule real_sqrt_unique) (simp_all add: power2_eq_square)
  have k2: "(2::nat) < 3" by simp
  have vi: "velArray ?s' ! (0 * 3) = 0.3" "velArray ?s' ! (0 * 3 + 1) = 0.4"
    "velArray ?s' ! (0 * 3 + 2) = 1.2"
    using v by (simp_all add: numeral_2_eq_2)
  have "colorArray ?s' ! (0 * 3 + 2) =
      (1 - min (1.3 * 0.5) 1) * channel 2 (color1 (params one_particle))
        + min (1.3 * 0.5) 1 * channel 2 (color2 (params one_particle))"
    using update_step_order [OF ok k2, where dt = 1 and g = ?g and rnd = one_draws]
    unfolding Let_def vi sp by (elim conjE)
  then have c: "colorArray ?s' ! 2 = 0.65"
    by (simp add: channel_def sel numeral_2_eq_2)
  have l: "length (velArray ?s') = 3" "length (posArray ?s') = 3"
    by (simp_all add: update_lengths sel)
  have "velArray ?s' = [0.3, 0.4, 1.2]"
    using l(1) v by (intro nth_equalityI) (auto simp: less_Suc_eq numeral_3_eq_3 numeral_2_eq_2)
  moreover have "posArray ?s' = [3.3, 4.4, 1.2]"
    using l(2) p by (intro nth_equalityI) (auto simp: less_Suc_eq numeral_3_eq_3 numeral_2_eq_2)
  ultimately show ?thesis using c by simp
qed

text \<open>
  Claim C9: \<open>update\<close> leaves \<open>targetArray\<close> as it is, keeps the lengths of the buffers,
  and leaves the positions, velocities and colours of every particle from
  \<open>currentCount\<close> on untouched; so after lowering the count, stepping and setting
  another count, the entries beyond the lowered count are those from before.
\<close>

theorem update_frame:
  "targetArray (update dt g rnd s) = targetArray s \<and>
   length (posArray (update dt g rnd s)) = length (posArray s) \<and>
   length (velArray (update dt g rnd s)) = length (velArray s) \<and>
   length (colorArray (update dt g rnd s)) = length (colorArray s) \<and>
   (\<forall>m. nat (currentCount s) * 3 \<le> m \<longrightarrow>
      posArray (update dt g rnd s) ! m = posArray s ! m \<and>
      velArray (update dt g rnd s) ! m = velArray s ! m \<and>
      colorArray (update dt g rnd s) ! m = colorArray s ! m) \<and>
   (\<forall>m. nat (min n (maxCount s)) * 3 \<le> m \<longrightarrow>
      (let s' = setParticleCount n' (update dt g rnd (setParticleCount n s))
       in targetArray s' = targetArray s \<and>
          posArray s' ! m = posArray s ! m \<and>
          velArray s' ! m = velArray s ! m \<and>
          colorArray s' ! m = colorArray s ! m))"
  by (simp add: update_arrays(4) update_lengths update_frozen Let_def)

theorem update_frame_witness:
  "posArray (update 1 \<lparr>gtype = EXPAND, strength = 1, rotationY = None\<rparr> (\<lambda>_. 0) two_particles) ! 3 = 4 \<and>
   velArray (update 1 \<lparr>gtype = EXPAND, strength = 1, rotationY = None\<rparr> (\<lambda>_. 0) two_particles) ! 4 = 1 \<and>
   colorArray (update 1 \<lparr>gtype = EXPAND, strength = 1, rotationY = None\<rparr> (\<lambda>_. 0) two_particles) ! 5
     = 0.5 \<and>
   posArray (setParticleCount 2
      (update 1 \<lparr>gtype = EXPAND, strength = 1, rotationY = None\<rparr> (\<lambda>_. 0)
         (setParticleCount 1 two_particles))) ! 3 = 4"
  using update_frame [of 1 "\<lparr>gtype = EXPAND, strength = 1, rotationY = None\<rparr>" "\<lambda>_. 0"
      two_particles 1 2]
  by (simp add: two_particles_def Let_def)

text \<open>
  Claim C1, as the code has it: \<open>setParticleCount\<close> stores \<open>min n maxCount\<close>. For
  \<open>n\<close> from 0 on this is \<open>n\<close> clamped into \<open>[0, maxCount]\<close>; there is no lower bound in
  the code, and a negative \<open>n\<close> is stored as it is. The four buffers are not touched.
\<close>

theorem setParticleCount_caps:
  "currentCount (setParticleCount n s) = min n (maxCount s) \<and>
   (0 \<le> n \<and> 0 \<le> maxCount s \<longrightarrow>
      currentCount (setParticleCount n s) = clamp 0 (maxCount s) n) \<and>
   posArray (setParticleCount n s) = posArray s \<and>
   targetArray (setParticleCount n s) = targetArray s \<and>
   velArray (setParticleCount n s) = velArray s \<and>
   colorArray (setParticleCount n s) = colorArray s"
  by (auto simp: clamp_def)

theorem setParticleCount_caps_witness:
  "currentCount (setParticleCount 7 two_particles) = clamp 0 2 7 \<and>
   currentCount (setParticleCount 7 two_particles) = 2"
  using setParticleCount_caps [of 7 two_particles]
  by (simp add: two_particles_def clamp_def)

theorem setParticleCount_counterexample:
  "currentCount (setParticleCount (- 1) two_particles) = - 1 \<and>
   currentCount (setParticleCount (- 1) two_particles) \<noteq> clamp 0 (maxCount two_particles) (- 1)"
  by (simp add: two_particles_def clamp_def setParticleCount_def Let_def)

text \<open>
  Claim C8: the denominator of the explosion branch is the length of the position plus
  0.001, so it is at least 0.001 and never zero; for a particle at the origin (with its
  home there too) the force of an \<open>EXPAND\<close> gesture is the noise alone.
\<close>

theorem expand_len_positive:
  "0 < expand_len px py pz \<and> 0.001 \<le> expand_len px py pz \<and> expand_len 0 0 0 = 0.001 \<and>
   particle_force dt \<lparr>gtype = EXPAND, strength = st, rotationY = rot\<rparr> ps rnd 0
       (s\<lparr>posArray := [0, 0, 0], targetArray := [0, 0, 0]\<rparr>) =
     (f_noise rnd s 0, f_noise rnd s 1, f_noise rnd s 2)"
proof -
  have r: "0 \<le> sqrt (px * px + py * py + pz * pz)" by simp
  have a: "0.001 \<le> expand_len px py pz" unfolding expand_len_def using r by linarith
  have "(0::real) < 0.001" by simp
  then have b: "0 < expand_len px py pz" using a by (rule less_le_trans)
  have c: "expand_len 0 0 0 = 0.001" by (simp add: expand_len_def)
  have d: "particle_force dt \<lparr>gtype = EXPAND, strength = st, rotationY = rot\<rparr> ps rnd 0
       (s\<lparr>posArray := [0, 0, 0], targetArray := [0, 0, 0]\<rparr>) =
     (f_noise rnd s 0, f_noise rnd s 1, f_noise rnd s 2)"
    by (simp add: particle_force_def Let_def f_noise_def numeral_2_eq_2)
  show ?thesis using a b c d by simp
qed

lemma beat_eq: "beat tm = 1 + sin (tm * 3) * 0.05 * (1 - sin (tm * 3) * 0.5)"
  by (simp add: beat_def)

lemma beat_lower: "0.925 \<le> beat tm"
proof -
  define u where "u = sin (tm * 3)"
  have u: "- 1 \<le> u" "u \<le> 1" by (simp_all add: u_def)
  have "beat tm - 0.925 = 0.025 * ((3 - u) * (1 + u))"
    by (simp add: beat_eq u_def [symmetric] field_simps)
  moreover have "0 \<le> (3 - u) * (1 + u)" using u by (intro mult_nonneg_nonneg) simp_all
  ultimately have "0 \<le> beat tm - 0.925" by simp
  then show ?thesis by simp
qed

lemma beat_upper: "beat tm \<le> 1.025"
proof -
  define u where "u = sin (tm * 3)"
  have eq: "1.025 - beat tm = 0.025 * ((1 - u) * (1 - u))"
    by (simp add: beat_eq u_def [symmetric] field_simps)
  have ge: "0 \<le> 0.025 * ((1 - u) * (1 - u))" by simp
  have "0 \<le> 1.025 - beat tm" unfolding eq by (rule ge)
  then show ?thesis by simp
qed

text \<open>
  Claim C10: the heartbeat factor lies between 0.925 and 1.025 for every time, so the
  scaled home \<open>h * beat tm\<close> has between 92.5 and 102.5 percent of the size of \<open>h\<close>; both
  bounds are reached.
\<close>

theorem beat_bounds:
  "0.925 \<le> beat tm \<and> beat tm \<le> 1.025 \<and>
   0.925 * \<bar>h\<bar> \<le> \<bar>h * beat tm\<bar> \<and> \<bar>h * beat tm\<bar> \<le> 1.025 * \<bar>h\<bar> \<and>
   beat (- (pi / 6)) = 0.925 \<and> beat (pi / 6) = 1.025"
proof -
  have lo: "0.925 \<le> beat tm" by (rule beat_lower)
  have hi: "beat tm \<le> 1.025" by (rule beat_upper)
  have pos: "0 \<le> beat tm" using lo by simp
  have m: "\<bar>h * beat tm\<bar> = \<bar>h\<bar> * beat tm" using pos by (simp add: abs_mult)
  have s1: "0.925 * \<bar>h\<bar> \<le> \<bar>h * beat tm\<bar>"
    unfolding m using mult_left_mono [OF lo, of "\<bar>h\<bar>"] by (simp add: mult.commute)
  have s2: "\<bar>h * beat tm\<bar> \<le> 1.025 * \<bar>h\<bar>"
    unfolding m using mult_left_mono [OF hi, of "\<bar>h\<bar>"] by (simp add: mult.commute)
  have e1: "beat (- (pi / 6)) = 0.925" by (simp add: beat_eq)
  have e2: "beat (pi / 6) = 1.025" by (simp add: beat_eq)
  show ?thesis using lo hi s1 s2 e1 e2 by simp
qed

lemma resetParticle_fields [simp]:
  "maxCount (resetParticle rnd i s) = maxCount s"
  "length (targetArray (resetParticle rnd i s)) = length (targetArray s)"
  "length (posArray (resetParticle rnd i s)) = length (posArray s)"
  "length (velArray (resetParticle rnd i s)) = length (velArray s)"
  by (simp_all add: resetParticle_def Let_def)

lemma resetParticle_frame:
  "m < i * 3 \<or> i * 3 + 2 < m \<Longrightarrow>
   targetArray (resetParticle rnd i s) ! m = targetArray s ! m"
  by (auto simp: resetParticle_def Let_def)

lemma resetParticle_home:
  assumes "i * 3 + 2 < length (targetArray s)" "k < 3"
  shows "targetArray (resetParticle rnd i s) ! (i * 3 + k) = home_point rnd i k"
proof -
  from assms(2) have "k = 0 \<or> k = 1 \<or> k = 2" by auto
  then show ?thesis
    using assms(1)
    by (auto simp: resetParticle_def Let_def home_point_def getHeartPoint_def heart_x_def
        heart_y_def algebra_simps)
qed

lemma init_loop_length [simp]:
  "length (targetArray (fold (resetParticle rnd) [0..<n] s)) = length (targetArray s)"
  by (induction n) simp_all

lemma init_loop_home:
  assumes "i < n" "k < 3" "n * 3 \<le> length (targetArray s)"
  shows "targetArray (fold (resetParticle rnd) [0..<n] s) ! (i * 3 + k) = home_point rnd i k"
  using assms
proof (induction n)
  case 0
  then show ?case by simp
next
  case (Suc n)
  show ?case
  proof (cases "i = n")
    case True
    then show ?thesis using Suc.prems by (simp add: resetParticle_home)
  next
    case False
    then have "i < n" using Suc.prems by simp
    then show ?thesis using Suc by (simp add: resetParticle_frame)
  qed
qed

lemma initParticles_home:
  assumes "buffers_ok s" "int i < maxCount s" "k < 3"
  shows "targetArray (initParticles rnd s) ! (i * 3 + k) = home_point rnd i k"
proof -
  have "i < nat (maxCount s)" using assms(2) by simp
  moreover have "nat (maxCount s) * 3 \<le> length (targetArray s)"
    using assms(1,2) by (simp add: buffers_ok_def nat_mult_distrib)
  ultimately show ?thesis
    using assms(3) by (simp add: initParticles_def init_loop_home)
qed

lemma draw_ranges:
  assumes "unit_draw a" "unit_draw b" "unit_draw c"
  shows "0 \<le> a * (2 * pi)" "a * (2 * pi) < 2 * pi" "0 \<le> sqrt b" "sqrt b < 1"
    "- 5 * sqrt b \<le> (c - 0.5) * 10 * sqrt b" "(c - 0.5) * 10 * sqrt b \<le> 5 * sqrt b"
proof -
  have a: "0 \<le> a" "a < 1" and b: "0 \<le> b" "b < 1" and c: "0 \<le> c" "c < 1"
    using assms by (simp_all add: unit_draw_def)
  show "0 \<le> a * (2 * pi)" using a by simp
  show "a * (2 * pi) < 2 * pi" using a by simp
  show r0: "0 \<le> sqrt b" using b by simp
  show "sqrt b < 1" using b by simp
  have lo: "- 5 \<le> (c - 0.5) * 10" and hi: "(c - 0.5) * 10 \<le> 5" using c by simp_all
  show "- 5 * sqrt b \<le> (c - 0.5) * 10 * sqrt b" using lo r0 by (rule mult_right_mono)
  show "(c - 0.5) * 10 * sqrt b \<le> 5 * sqrt b" using hi r0 by (rule mult_right_mono)
qed

text \<open>
  Claim C6: every home point written by \<open>initParticles\<close> comes from three draws: the
  angle \<open>t\<close> in \<open>[0, 2 pi)\<close>, the radial factor \<open>r\<close>, the square root of a draw, in
  \<open>[0, 1)\<close>, and the depth \<open>z = (u - 0.5) * 10 * r\<close> between \<open>- 5 r\<close> and \<open>5 r\<close>; the
  point is the point of the heart curve at \<open>t\<close> scaled by \<open>r\<close> and lifted by 2, and
  \<open>getHeartPoint\<close> at scale 1 gives the curve itself.
\<close>

theorem home_points_fill_the_heart:
  assumes "buffers_ok s" "int i < maxCount s"
    and "unit_draw (rnd (3 * i))" "unit_draw (rnd (3 * i + 1))" "unit_draw (rnd (3 * i + 2))"
  shows "let t = rnd (3 * i) * (2 * pi);
             r = sqrt (rnd (3 * i + 1));
             u = rnd (3 * i + 2);
             home = targetArray (initParticles rnd s)
         in 0 \<le> t \<and> t < 2 * pi \<and> 0 \<le> r \<and> r < 1 \<and>
            home ! (i * 3) = 16 * sin t ^ 3 * r \<and>
            home ! (i * 3 + 1) =
              (13 * cos t - 5 * cos (2 * t) - 2 * cos (3 * t) - cos (4 * t)) * r + 2 \<and>
            home ! (i * 3 + 2) = (u - 0.5) * 10 * r \<and>
            - 5 * r \<le> home ! (i * 3 + 2) \<and> home ! (i * 3 + 2) \<le> 5 * r \<and>
            v_x (getHeartPoint t 1 u) = heart_x t \<and>
            v_y (getHeartPoint t 1 u) = heart_y t"
proof -
  have h: "\<And>k. k < 3 \<Longrightarrow> targetArray (initParticles rnd s) ! (i * 3 + k) = home_point rnd i k"
    using assms(1,2) by (rule initParticles_home)
  have h0: "targetArray (initParticles rnd s) ! (i * 3) = home_point rnd i 0"
    using h [of 0] by simp
  show ?thesis
    unfolding Let_def
    using h0 h [of 1] h [of 2] draw_ranges [OF assms(3-5)]
    by (simp add: home_point_def heart_x_def heart_y_def getHeartPoint_def)
qed

theorem home_points_fill_the_heart_witness:
  "targetArray (initParticles (\<lambda>_. 1 / 4) two_particles) ! 0 = 8 \<and>
   targetArray (initParticles (\<lambda>_. 1 / 4) two_particles) ! 2 = - (5 / 4)"
proof -
  have s: "sqrt (1 / 4) = 1 / 2" by (simp add: real_sqrt_divide)
  show ?thesis
    using home_points_fill_the_heart [of two_particles 0 "\<lambda>_. 1 / 4"]
    by (simp add: two_particles_def buffers_ok_def unit_draw_def Let_def s numeral_2_eq_2)
qed

end
